theory Spec2Isabelle
  imports Complex_Main "HOL-Library.AList"
begin

section \<open>Conventions of the embedding\<close>

text \<open>
  The TypeScript sources (PortfolioManager.ts, RiskManager.ts, TradingEngine and the
  shared types) are embedded function by function.

  \<^item> A JavaScript \<open>number\<close> holding a price, a quantity or a ratio is a \<open>real\<close>;
    millisecond timestamps are \<open>int\<close>. Arithmetic is exact: rounding, \<open>NaN\<close> and the
    infinities of IEEE doubles are outside the model, so a statement that reaches a
    division carries the hypothesis that its denominator is not zero.
  \<^item> An optional field (\<open>stopLoss?: number\<close>) is an \<open>option\<close>; \<open>None\<close> is \<open>undefined\<close>.
  \<^item> A \<open>Map\<close> is an association list in insertion order with one entry per key:
    \<open>map_of\<close> is \<open>get\<close>, \<open>AList.update\<close> is \<open>set\<close> (an existing key keeps its place, a
    new one goes last) and \<open>AList.delete\<close> is \<open>delete\<close>.
  \<^item> An exception is a value: a method of the ledger returns the exception it throws,
    if any, together with the state it leaves behind (a throw does not undo earlier
    mutations).
  \<^item> Collaborators outside the repository's logic (database, clock, exchange,
    predictor, data feed) are parameters. Logging and event emission change no state
    and are left out.
\<close>

type_synonym asset = "string option"
  \<comment> \<open>a key of the balance map; \<open>None\<close> is the key \<open>undefined\<close> that destructuring
      \<open>symbol.split('/')\<close> yields for a symbol without a slash\<close>

fun split_on :: "char \<Rightarrow> string \<Rightarrow> string list" where
  "split_on c [] = [[]]"
| "split_on c (x # xs) =
     (if x = c then [] # split_on c xs
      else (case split_on c xs of
              [] \<Rightarrow> [[x]]
            | w # ws \<Rightarrow> (x # w) # ws))"

definition split_symbol :: "string \<Rightarrow> asset \<times> asset" where
  \<comment> \<open>\<open>const [base, quote] = symbol.split('/')\<close>\<close>
  "split_symbol symbol =
     (case split_on (CHR ''/'') symbol of
        [] \<Rightarrow> (None, None)
      | [b] \<Rightarrow> (Some b, None)
      | b # q # _ \<Rightarrow> (Some b, Some q))"

definition js_or :: "real option \<Rightarrow> real \<Rightarrow> real" where
  \<comment> \<open>\<open>x || d\<close> for an optional number: \<open>undefined\<close> and \<open>0\<close> are falsy\<close>
  "js_or x d = (case x of None \<Rightarrow> d | Some v \<Rightarrow> if v = 0 then d else v)"

definition truthy :: "real option \<Rightarrow> bool" where
  "truthy x = (case x of None \<Rightarrow> False | Some v \<Rightarrow> v \<noteq> 0)"

definition get_or0 :: "('k \<times> real) list \<Rightarrow> 'k \<Rightarrow> real" where
  \<comment> \<open>\<open>map.get(k) || 0\<close>\<close>
  "get_or0 m k = js_or (map_of m k) 0"

section \<open>Data model (types/index.ts)\<close>

record Position =
  p_id :: string
  p_symbol :: string
  p_side :: string
  p_entryPrice :: real
  p_quantity :: real
  p_currentPrice :: "real option"
  p_value :: "real option"
  p_unrealizedPnl :: "real option"
  p_realizedPnl :: "real option"
  p_stopLoss :: "real option"
  p_takeProfit :: "real option"
  p_timestamp :: "int option"
    \<comment> \<open>declared mandatory, but \<open>importPortfolio\<close> stores objects that lack it\<close>

text \<open>\<open>Partial<Position>\<close>: \<open>None\<close> is an absent key; for an optional field \<open>Some None\<close>
  is a key that is present with the value \<open>undefined\<close>.\<close>

record PositionUpdates =
  u_id :: "string option"
  u_symbol :: "string option"
  u_side :: "string option"
  u_entryPrice :: "real option"
  u_quantity :: "real option"
  u_currentPrice :: "real option option"
  u_value :: "real option option"
  u_unrealizedPnl :: "real option option"
  u_realizedPnl :: "real option option"
  u_stopLoss :: "real option option"
  u_takeProfit :: "real option option"
  u_timestamp :: "int option option"

text \<open>The record that \<open>closePosition\<close> hands to \<open>recordPerformance\<close> (a closed trade).\<close>

record Trade =
  t_positionId :: string
  t_symbol :: string
  t_side :: string
  t_entryPrice :: real
  t_exitPrice :: real
  t_quantity :: real
  t_pnl :: real
  t_timestamp :: int

datatype error = PositionNotFound string | DatabaseError

section \<open>The Portfolio Ledger (portfolio/PortfolioManager.ts)\<close>

record Portfolio =
  positions :: "(string \<times> Position) list"
  balance :: "(asset \<times> real) list"
  performanceHistory :: "Trade list"

definition initialPortfolio :: Portfolio where
  \<comment> \<open>the constructor with \<open>initializeBalance\<close>\<close>
  "initialPortfolio =
     \<lparr> positions = [],
       balance = [(Some ''USDT'', 10000), (Some ''BTC'', 0), (Some ''ETH'', 0)],
       performanceHistory = [] \<rparr>"

definition addPosition :: "bool \<Rightarrow> Position \<Rightarrow> Portfolio \<Rightarrow> error option \<times> Portfolio" where
  \<comment> \<open>\<open>db\<close>: whether the awaited \<open>database.savePosition\<close> resolves\<close>
  "addPosition db position st =
     (let positions' = AList.update (p_id position) position (positions st);
          (base, quote) = split_symbol (p_symbol position);
          currentQuote = get_or0 (balance st) quote;
          cost = p_entryPrice position * p_quantity position;
          balance' =
            (if p_side position = ''BUY'' then
               (let b1 = AList.update quote (currentQuote - cost) (balance st);
                    currentBase = get_or0 b1 base
                in AList.update base (currentBase + p_quantity position) b1)
             else
               (let currentBase = get_or0 (balance st) base;
                    b1 = AList.update base (currentBase - p_quantity position) (balance st)
                in AList.update quote (currentQuote + cost) b1))
      in (if db then None else Some DatabaseError,
          st\<lparr> positions := positions', balance := balance' \<rparr>))"

definition merge :: "'a \<Rightarrow> 'a option \<Rightarrow> 'a" where
  \<comment> \<open>one field of \<open>{ ...position, ...updates }\<close>\<close>
  "merge old upd = (case upd of None \<Rightarrow> old | Some v \<Rightarrow> v)"

definition spread :: "Position \<Rightarrow> PositionUpdates \<Rightarrow> Position" where
  "spread position updates =
     \<lparr> p_id = merge (p_id position) (u_id updates),
       p_symbol = merge (p_symbol position) (u_symbol updates),
       p_side = merge (p_side position) (u_side updates),
       p_entryPrice = merge (p_entryPrice position) (u_entryPrice updates),
       p_quantity = merge (p_quantity position) (u_quantity updates),
       p_currentPrice = merge (p_currentPrice position) (u_currentPrice updates),
       p_value = merge (p_value position) (u_value updates),
       p_unrealizedPnl = merge (p_unrealizedPnl position) (u_unrealizedPnl updates),
       p_realizedPnl = merge (p_realizedPnl position) (u_realizedPnl updates),
       p_stopLoss = merge (p_stopLoss position) (u_stopLoss updates),
       p_takeProfit = merge (p_takeProfit position) (u_takeProfit updates),
       p_timestamp = merge (p_timestamp position) (u_timestamp updates) \<rparr>"

definition updatePosition ::
  "bool \<Rightarrow> string \<Rightarrow> PositionUpdates \<Rightarrow> Portfolio \<Rightarrow> error option \<times> Portfolio" where
  "updatePosition db positionId updates st =
     (case map_of (positions st) positionId of
        None \<Rightarrow> (Some (PositionNotFound positionId), st)
      | Some position \<Rightarrow>
          (let updatedPosition = spread position updates
           in (if db then None else Some DatabaseError,
               st\<lparr> positions := AList.update positionId updatedPosition (positions st) \<rparr>)))"

definition calculatePnL :: "Position \<Rightarrow> real \<Rightarrow> real" where
  "calculatePnL position currentPrice =
     (let diff = currentPrice - p_entryPrice position
      in if p_side position = ''BUY'' then diff * p_quantity position
         else - diff * p_quantity position)"

definition recordPerformance :: "Trade \<Rightarrow> Trade list \<Rightarrow> Trade list" where
  \<comment> \<open>\<open>push\<close>, then \<open>shift\<close> once the history is longer than 1000; a failing
      \<open>database.saveTrade\<close> is caught and only logged\<close>
  "recordPerformance trade history =
     (let h = history @ [trade]
      in if length h > 1000 then tl h else h)"

definition closePosition ::
  "bool \<Rightarrow> int \<Rightarrow> string \<Rightarrow> real option \<Rightarrow> Portfolio \<Rightarrow> error option \<times> Portfolio" where
  \<comment> \<open>\<open>db\<close>: whether \<open>database.closePosition\<close> resolves; \<open>now\<close>: the value of \<open>Date.now()\<close>\<close>
  "closePosition db now positionId exitPrice st =
     (case map_of (positions st) positionId of
        None \<Rightarrow> (Some (PositionNotFound positionId), st)
      | Some position \<Rightarrow>
          (let price = js_or exitPrice (js_or (p_currentPrice position) (p_entryPrice position));
               pnl = calculatePnL position price;
               (base, quote) = split_symbol (p_symbol position);
               proceeds = price * p_quantity position;
               balance' =
                 (if p_side position = ''BUY'' then
                    (let currentBase = get_or0 (balance st) base;
                         b1 = AList.update base (currentBase - p_quantity position) (balance st);
                         currentQuote = get_or0 b1 quote
                     in AList.update quote (currentQuote + proceeds) b1)
                  else
                    (let currentBase = get_or0 (balance st) base;
                         b1 = AList.update base (currentBase + p_quantity position) (balance st);
                         currentQuote = get_or0 b1 quote
                     in AList.update quote (currentQuote - proceeds) b1));
               trade = \<lparr> t_positionId = positionId,
                         t_symbol = p_symbol position,
                         t_side = p_side position,
                         t_entryPrice = p_entryPrice position,
                         t_exitPrice = price,
                         t_quantity = p_quantity position,
                         t_pnl = pnl,
                         t_timestamp = now \<rparr>
           in (if db then None else Some DatabaseError,
               st\<lparr> balance := balance',
                   performanceHistory := recordPerformance trade (performanceHistory st),
                   positions := AList.delete positionId (positions st) \<rparr>)))"

text \<open>
  \<open>updatePrices\<close> walks \<open>this.positions.values()\<close> while \<open>closePosition\<close> deletes from the
  same map. A \<open>Map\<close> iterator is live: it visits the entries in insertion order and
  passes over an entry deleted before its turn. The loop therefore runs over the keys
  present at the start and looks each one up again. The position object is mutated in
  place, that is, under the key it is stored at; \<open>closePosition\<close> is called with the
  object's own \<open>id\<close>. An exception of \<open>closePosition\<close> leaves the loop. \<open>db\<close> and \<open>clock\<close>
  give, per position id, the outcome of the database write and the reading of
  \<open>Date.now()\<close> when that position is closed.
\<close>

fun updatePrices_loop ::
  "(string \<Rightarrow> bool) \<Rightarrow> (string \<Rightarrow> int) \<Rightarrow> (string \<Rightarrow> real option) \<Rightarrow> string list
     \<Rightarrow> Portfolio \<Rightarrow> error option \<times> Portfolio" where
  "updatePrices_loop db clock prices [] st = (None, st)"
| "updatePrices_loop db clock prices (k # ks) st =
     (case map_of (positions st) k of
        None \<Rightarrow> updatePrices_loop db clock prices ks st
      | Some position0 \<Rightarrow>
          (case prices (p_symbol position0) of
             None \<Rightarrow> updatePrices_loop db clock prices ks st
           | Some currentPrice \<Rightarrow>
               if currentPrice = 0 then updatePrices_loop db clock prices ks st
               else
                 (let position = position0
                        \<lparr> p_currentPrice := Some currentPrice,
                          p_value := Some (currentPrice * p_quantity position0),
                          p_unrealizedPnl := Some (calculatePnL position0 currentPrice) \<rparr>;
                      st1 = st\<lparr> positions := AList.update k position (positions st) \<rparr>
                  in if (case p_stopLoss position of
                           None \<Rightarrow> False
                         | Some stopLoss \<Rightarrow> stopLoss \<noteq> 0 \<and> currentPrice \<le> stopLoss)
                     then
                       (case closePosition (db (p_id position)) (clock (p_id position))
                               (p_id position) (Some currentPrice) st1 of
                          (Some e, st2) \<Rightarrow> (Some e, st2)
                        | (None, st2) \<Rightarrow> updatePrices_loop db clock prices ks st2)
                     else if (case p_takeProfit position of
                                None \<Rightarrow> False
                              | Some takeProfit \<Rightarrow> takeProfit \<noteq> 0 \<and> currentPrice \<ge> takeProfit)
                     then
                       (case closePosition (db (p_id position)) (clock (p_id position))
                               (p_id position) (Some currentPrice) st1 of
                          (Some e, st2) \<Rightarrow> (Some e, st2)
                        | (None, st2) \<Rightarrow> updatePrices_loop db clock prices ks st2)
                     else updatePrices_loop db clock prices ks st1)))"

definition updatePrices ::
  "(string \<Rightarrow> bool) \<Rightarrow> (string \<Rightarrow> int) \<Rightarrow> (string \<Rightarrow> real option)
     \<Rightarrow> Portfolio \<Rightarrow> error option \<times> Portfolio" where
  "updatePrices db clock prices st =
     updatePrices_loop db clock prices (map fst (positions st)) st"

subsection \<open>getPerformanceMetrics\<close>

text \<open>The returned object literal is a property list: a field that the literal does not
  mention is absent, and reading it gives \<open>undefined\<close>.\<close>

datatype jsval = Num real | Arr "real list"

fun drawdown_loop :: "real list \<Rightarrow> real \<Rightarrow> real \<Rightarrow> real \<Rightarrow> real" where
  "drawdown_loop [] peak maxDD runningTotal = maxDD"
| "drawdown_loop (pnl # rest) peak maxDD runningTotal =
     (let runningTotal' = runningTotal + pnl;
          peak' = (if runningTotal' > peak then runningTotal' else peak);
          drawdown = (if peak' > 0 then (peak' - runningTotal') / peak' else 0);
          maxDD' = (if drawdown > maxDD then drawdown else maxDD)
      in drawdown_loop rest peak' maxDD' runningTotal')"

fun equity_loop :: "real list \<Rightarrow> real \<Rightarrow> real list" where
  "equity_loop [] equity = []"
| "equity_loop (pnl # rest) equity = (equity + pnl) # equity_loop rest (equity + pnl)"

definition getPerformanceMetrics :: "Trade list \<Rightarrow> (string \<times> jsval) list" where
  "getPerformanceMetrics trades =
     (if length trades = 0 then
        [ (''totalTrades'', Num 0),
          (''winningTrades'', Num 0),
          (''losingTrades'', Num 0),
          (''winRate'', Num 0),
          (''totalPnL'', Num 0),
          (''averagePnL'', Num 0),
          (''bestTrade'', Num 0),
          (''worstTrade'', Num 0),
          (''profitFactor'', Num 0),
          (''expectancy'', Num 0) ]
      else
        (let winningTrades = filter (\<lambda>t. t_pnl t > 0) trades;
             losingTrades = filter (\<lambda>t. t_pnl t < 0) trades;
             totalPnL = foldl (\<lambda>sum t. sum + t_pnl t) 0 trades;
             grossProfit = foldl (\<lambda>sum t. sum + t_pnl t) 0 winningTrades;
             grossLoss = \<bar>foldl (\<lambda>sum t. sum + t_pnl t) 0 losingTrades\<bar>;
             returns = map t_pnl trades;
             avgReturn = (if length returns > 0
                          then foldl (\<lambda>a b. a + b) 0 returns / real (length returns) else 0);
             variance = (if length returns > 0
                         then foldl (\<lambda>sum ret. sum + (ret - avgReturn)\<^sup>2) 0 returns
                                / real (length returns)
                         else 0);
             stdDev = sqrt variance;
             sharpeRatio = (if stdDev > 0 then (avgReturn / stdDev) * sqrt 252 else 0);
             maxDrawdown = drawdown_loop returns 0 0 0;
             equityCurve = equity_loop returns 10000
         in [ (''totalTrades'', Num (real (length trades))),
              (''winningTrades'', Num (real (length winningTrades))),
              (''losingTrades'', Num (real (length losingTrades))),
              (''winRate'', Num (if length trades > 0
                   then real (length winningTrades) / real (length trades) else 0)),
              (''totalPnL'', Num totalPnL),
              (''averagePnL'', Num (if length trades > 0
                   then totalPnL / real (length trades) else 0)),
              (''bestTrade'', Num (case returns of [] \<Rightarrow> 0 | r # rs \<Rightarrow> foldl max r rs)),
              (''worstTrade'', Num (case returns of [] \<Rightarrow> 0 | r # rs \<Rightarrow> foldl min r rs)),
              (''profitFactor'', Num (if grossLoss > 0 then grossProfit / grossLoss else 0)),
              (''expectancy'', Num (if length trades > 0
                   then totalPnL / real (length trades) else 0)),
              (''averageWin'', Num (if length winningTrades > 0
                   then grossProfit / real (length winningTrades) else 0)),
              (''averageLoss'', Num (if length losingTrades > 0
                   then grossLoss / real (length losingTrades) else 0)),
              (''sharpeRatio'', Num sharpeRatio),
              (''maxDrawdown'', Num maxDrawdown),
              (''equityCurve'', Arr equityCurve) ]))"

subsection \<open>exportPortfolio and importPortfolio\<close>

text \<open>
  The object that \<open>exportPortfolio\<close> builds. Its \<open>positions\<close> are fresh objects with
  seven fields; \<open>balance\<close> is a plain object, whose keys are strings
  (\<open>Object.fromEntries\<close> turns the key \<open>undefined\<close> into the string "undefined"). A plain
  object is modelled as a property list in creation order; JavaScript lists keys that
  look like array indices first, which no statement below depends on, since balances
  are compared by lookup. \<open>importPortfolio\<close> takes \<open>data: any\<close>; the model gives it the
  shape that \<open>exportPortfolio\<close> produces, each section being optional as the guards
  \<open>if (data.balance)\<close>, \<open>if (data.positions)\<close> and \<open>if (data.recentTrades)\<close> foresee.
\<close>

record ExportedPosition =
  x_id :: string
  x_symbol :: string
  x_side :: string
  x_quantity :: real
  x_entryPrice :: real
  x_currentPrice :: "real option"
  x_unrealizedPnl :: "real option"

record PortfolioData =
  d_timestamp :: int
  d_balance :: "(string \<times> real) list option"
  d_positions :: "ExportedPosition list option"
  d_performance :: "(string \<times> jsval) list"
  d_recentTrades :: "Trade list option"

definition key_string :: "asset \<Rightarrow> string" where
  "key_string k = (case k of None \<Rightarrow> ''undefined'' | Some s \<Rightarrow> s)"

definition fromEntries :: "(asset \<times> real) list \<Rightarrow> (string \<times> real) list" where
  "fromEntries m = foldl (\<lambda>obj (k, v). AList.update (key_string k) v obj) [] m"

definition exportPosition :: "Position \<Rightarrow> ExportedPosition" where
  "exportPosition p =
     \<lparr> x_id = p_id p,
       x_symbol = p_symbol p,
       x_side = p_side p,
       x_quantity = p_quantity p,
       x_entryPrice = p_entryPrice p,
       x_currentPrice = p_currentPrice p,
       x_unrealizedPnl = p_unrealizedPnl p \<rparr>"

definition exportPortfolio :: "int \<Rightarrow> Portfolio \<Rightarrow> PortfolioData" where
  "exportPortfolio now st =
     \<lparr> d_timestamp = now,
       d_balance = Some (fromEntries (balance st)),
       d_positions = Some (map (\<lambda>p. exportPosition p) (map snd (positions st))),
       d_performance = getPerformanceMetrics (performanceHistory st),
       d_recentTrades =
         Some (drop (length (performanceHistory st) - 20) (performanceHistory st)) \<rparr>"

definition asPosition :: "ExportedPosition \<Rightarrow> Position" where
  \<comment> \<open>an exported object read as a \<open>Position\<close>: the fields it lacks are \<open>undefined\<close>\<close>
  "asPosition x =
     \<lparr> p_id = x_id x,
       p_symbol = x_symbol x,
       p_side = x_side x,
       p_entryPrice = x_entryPrice x,
       p_quantity = x_quantity x,
       p_currentPrice = x_currentPrice x,
       p_value = None,
       p_unrealizedPnl = x_unrealizedPnl x,
       p_realizedPnl = None,
       p_stopLoss = None,
       p_takeProfit = None,
       p_timestamp = None \<rparr>"

definition importPortfolio :: "PortfolioData \<Rightarrow> Portfolio \<Rightarrow> Portfolio" where
  \<comment> \<open>the three containers are cleared first, so the old state \<open>st\<close> does not show\<close>
  "importPortfolio data st =
     \<lparr> positions =
         (case d_positions data of
            None \<Rightarrow> []
          | Some ps \<Rightarrow> foldl (\<lambda>m pos. AList.update (x_id pos) (asPosition pos) m) [] ps),
       balance =
         (case d_balance data of
            None \<Rightarrow> []
          | Some obj \<Rightarrow> foldl (\<lambda>m (asset, amount). AList.update (Some asset) amount m) [] obj),
       performanceHistory =
         (case d_recentTrades data of None \<Rightarrow> [] | Some ts \<Rightarrow> ts) \<rparr>"

section \<open>Signals and the Risk Gate (risk/RiskManager.ts)\<close>

datatype Action = BUY | SELL

record SignalMetadata =
  m_priceChange :: "real option"
  m_volume :: "real option"
  m_volatility :: "real option"
  m_rsi :: "real option"
  m_macd :: "(real \<times> real \<times> real) option"

record Signal =
  s_id :: string
  s_symbol :: string
  s_action :: Action
  s_price :: real
  s_targetPrice :: real
  s_stopLoss :: real
  s_takeProfit :: real
  s_confidence :: real
  s_timeframe :: string
  s_timestamp :: int
  s_metadata :: "SignalMetadata option"

record RiskManager =
  r_maxPositionSize :: real
  r_maxDrawdown :: real
  r_riskPerTrade :: real
  r_maxOpenPositions :: real
  r_currentDrawdown :: real
  r_peakBalance :: real
  r_correlationMatrix :: "(string \<times> (string \<times> real) list) list"

text \<open>The "mock methods" at the end of the class, as the source has them.\<close>

definition getAccountBalance :: real where
  "getAccountBalance = 10000"

definition getOpenPositionsCount :: real where
  "getOpenPositionsCount = 3"

definition getOpenPositions :: "Position list" where
  "getOpenPositions = []"

definition volatility_of :: "Signal \<Rightarrow> real option" where
  \<comment> \<open>\<open>signal.metadata?.volatility\<close>\<close>
  "volatility_of signal =
     (case s_metadata signal of None \<Rightarrow> None | Some md \<Rightarrow> m_volatility md)"

definition calculateKellyFraction :: "Signal \<Rightarrow> real" where
  "calculateKellyFraction signal =
     (let winProbability = s_confidence signal;
          lossProbability = 1 - winProbability;
          winAmount = \<bar>s_targetPrice signal - s_price signal\<bar>;
          lossAmount = \<bar>s_price signal - s_stopLoss signal\<bar>;
          odds = winAmount / lossAmount;
          kellyFraction = (winProbability * odds - lossProbability) / odds
      in max 0 (kellyFraction * 0.25))"

definition getVolatilityMultiplier :: "Signal \<Rightarrow> real" where
  "getVolatilityMultiplier signal =
     (let volatility = js_or (volatility_of signal) 0.1
      in if volatility > 0.3 then 0.5
         else if volatility > 0.2 then 0.7
         else if volatility > 0.1 then 0.9
         else 1.0)"

definition js_round :: "real \<Rightarrow> real" where
  \<comment> \<open>\<open>Math.round\<close>: to the nearest integer, a tie going up\<close>
  "js_round x = real_of_int \<lfloor>x + 1 / 2\<rfloor>"

definition calculatePositionSize :: "RiskManager \<Rightarrow> Signal \<Rightarrow> real" where
  "calculatePositionSize rm signal =
     (let accountBalance = getAccountBalance;
          riskAmount = accountBalance * r_riskPerTrade rm;
          stopLossDistance = \<bar>s_price signal - s_stopLoss signal\<bar>;
          positionSize0 = riskAmount / stopLossDistance;
            \<comment> \<open>\<open>stopLossPercentage\<close> is computed in the source and never used\<close>
          kellyFraction = calculateKellyFraction signal;
          positionSize1 = positionSize0 * min kellyFraction 0.25;
          volatilityMultiplier = getVolatilityMultiplier signal;
          positionSize2 = positionSize1 * volatilityMultiplier;
          positionSize3 = min positionSize2 (r_maxPositionSize rm);
          minimumSize = 10
      in if positionSize3 < minimumSize then 0
         else js_round (positionSize3 * 100) / 100)"

definition base_of :: "string \<Rightarrow> string" where
  \<comment> \<open>\<open>symbol.split('/')[0]\<close>\<close>
  "base_of symbol = (case split_on (CHR ''/'') symbol of [] \<Rightarrow> [] | b # _ \<Rightarrow> b)"

definition highCorrelationPairs :: "string list list" where
  "highCorrelationPairs = [[''BTC'', ''ETH''], [''SOL'', ''AVAX''], [''MATIC'', ''BNB'']]"

definition calculateBaseCorrelation :: "string \<Rightarrow> string \<Rightarrow> real" where
  "calculateBaseCorrelation symbol1 symbol2 =
     (let base1 = base_of symbol1;
          base2 = base_of symbol2
      in if base1 = base2 then 1.0
         else if list_ex (\<lambda>pair. List.member pair base1 \<and> List.member pair base2)
                   highCorrelationPairs
         then 0.7
         else 0.3)"

definition getCorrelation ::
  "(string \<times> (string \<times> real) list) list \<Rightarrow> string \<Rightarrow> string
     \<Rightarrow> real \<times> (string \<times> (string \<times> real) list) list" where
  \<comment> \<open>the memo table is state: the value and the table after the call\<close>
  "getCorrelation matrix symbol1 symbol2 =
     (let matrix1 = (if map_of matrix symbol1 = None
                     then AList.update symbol1 [] matrix else matrix);
          correlations = (case map_of matrix1 symbol1 of None \<Rightarrow> [] | Some c \<Rightarrow> c)
      in case map_of correlations symbol2 of
           Some v \<Rightarrow> (v, matrix1)
         | None \<Rightarrow>
             (let baseCorrelation = calculateBaseCorrelation symbol1 symbol2
              in (baseCorrelation,
                  AList.update symbol1
                    (AList.update symbol2 baseCorrelation correlations) matrix1)))"

fun correlation_loop ::
  "string \<Rightarrow> Position list \<Rightarrow> real \<Rightarrow> (string \<times> (string \<times> real) list) list
     \<Rightarrow> real \<times> (string \<times> (string \<times> real) list) list" where
  "correlation_loop symbol [] maxCorrelation matrix = (maxCorrelation, matrix)"
| "correlation_loop symbol (position # rest) maxCorrelation matrix =
     (case getCorrelation matrix symbol (p_symbol position) of
        (correlation, matrix') \<Rightarrow>
          correlation_loop symbol rest (max maxCorrelation \<bar>correlation\<bar>) matrix')"

definition checkCorrelationRisk ::
  "(string \<times> (string \<times> real) list) list \<Rightarrow> string
     \<Rightarrow> real \<times> (string \<times> (string \<times> real) list) list" where
  "checkCorrelationRisk matrix symbol = correlation_loop symbol getOpenPositions 0 matrix"

definition validateSignal :: "RiskManager \<Rightarrow> Signal \<Rightarrow> bool \<times> RiskManager" where
  \<comment> \<open>the verdict, and the manager with the memo table as the call leaves it; where
      the stop or the target equals the price the source's Kelly fraction divides by
      zero (\<open>NaN\<close> passes the test \<open>< 0.01\<close>), which the model does not follow\<close>
  "validateSignal rm signal =
     (if r_currentDrawdown rm > r_maxDrawdown rm then (False, rm)
      else if getOpenPositionsCount \<ge> r_maxOpenPositions rm then (False, rm)
      else
        (case checkCorrelationRisk (r_correlationMatrix rm) (s_symbol signal) of
           (correlationRisk, matrix') \<Rightarrow>
             (let rm' = rm\<lparr> r_correlationMatrix := matrix' \<rparr>
              in if correlationRisk > 0.8 then (False, rm')
                 else if s_confidence signal < 0.65 then (False, rm')
                 else if js_or (volatility_of signal) 0 > 0.5 then (False, rm')
                 else if calculateKellyFraction signal < 0.01 then (False, rm')
                 else (True, rm'))))"

definition calculateProfitFactor :: "real list \<Rightarrow> real" where
  \<comment> \<open>over the \<open>profit\<close> fields of the completed trades; the source draws them from a
      random stub, here they are the argument\<close>
  "calculateProfitFactor profits =
     (let grossProfit = foldl (\<lambda>sum t. sum + t) 0 (filter (\<lambda>t. t > 0) profits);
          grossLoss = \<bar>foldl (\<lambda>sum t. sum + t) 0 (filter (\<lambda>t. t < 0) profits)\<bar>
      in if grossLoss > 0 then grossProfit / grossLoss else grossProfit)"

section \<open>The trading engine (core/TradingEngine.ts)\<close>

datatype Direction = Up | Down | Neutral
  \<comment> \<open>\<open>'up' | 'down' | 'neutral'\<close>\<close>

record Prediction =
  pr_confidence :: real
  pr_direction :: Direction
  pr_predictedPrice :: real
  pr_timeframe :: string

record MarketData =
  md_symbol :: string
  md_price :: real
  md_volume :: real
  md_volatility :: real
  md_timestamp :: int
  md_rsi :: "real option"
  md_macd :: "(real \<times> real \<times> real) option"

definition calculateStopLoss :: "real \<Rightarrow> Direction \<Rightarrow> real" where
  "calculateStopLoss price direction =
     (let stopLossPercentage = 0.02
      in if direction = Up then price * (1 - stopLossPercentage)
         else price * (1 + stopLossPercentage))"

definition calculateTakeProfit :: "real \<Rightarrow> Direction \<Rightarrow> real" where
  "calculateTakeProfit price direction =
     (let takeProfitPercentage = 0.05
      in if direction = Up then price * (1 + takeProfitPercentage)
         else price * (1 - takeProfitPercentage))"

definition analyzeSignal ::
  "string \<Rightarrow> int \<Rightarrow> string \<Rightarrow> Prediction \<Rightarrow> MarketData \<Rightarrow> Signal option" where
  \<comment> \<open>\<open>sid\<close> is the result of \<open>generateSignalId()\<close>, \<open>now\<close> that of \<open>Date.now()\<close>\<close>
  "analyzeSignal sid now pair prediction marketData =
     (let confidence = pr_confidence prediction;
          direction = pr_direction prediction;
          predictedPrice = pr_predictedPrice prediction;
          confidenceThreshold = 0.65
      in if confidence < confidenceThreshold then None
         else
           (let currentPrice = md_price marketData;
                priceChange = ((predictedPrice - currentPrice) / currentPrice) * 100
            in if \<bar>priceChange\<bar> < 1 then None
               else Some
                 \<lparr> s_id = sid,
                   s_symbol = pair,
                   s_action = (if direction = Up then BUY else SELL),
                   s_price = currentPrice,
                   s_targetPrice = predictedPrice,
                   s_stopLoss = calculateStopLoss currentPrice direction,
                   s_takeProfit = calculateTakeProfit currentPrice direction,
                   s_confidence = confidence,
                   s_timeframe = pr_timeframe prediction,
                   s_timestamp = now,
                   s_metadata = Some
                     \<lparr> m_priceChange = Some priceChange,
                       m_volume = Some (md_volume marketData),
                       m_volatility = Some (md_volatility marketData),
                       m_rsi = md_rsi marketData,
                       m_macd = md_macd marketData \<rparr> \<rparr>))"

text \<open>
  What the engine reads of an exchange order (\<open>order.id\<close>, \<open>order.price\<close>,
  \<open>order.amount\<close>) and what it passes to \<open>exchange.createOrder\<close>.
\<close>

record Order =
  o_id :: string
  o_price :: real
  o_amount :: real

record OrderRequest =
  q_symbol :: string
  q_type :: string
  q_side :: string
  q_amount :: real
  q_price :: real
  q_stopPrice :: "real option"

text \<open>
  The collaborators of one cycle. The number is the position of the item in the cycle:
  the \<open>i\<close>-th signal taken off the queue, or the \<open>i\<close>-th trading pair.
  \<^item> \<open>nowCheck i\<close>: \<open>Date.now()\<close> in the expiry test of signal \<open>i\<close>;
    \<open>nowFill i\<close>: \<open>Date.now()\<close> when its position is recorded;
  \<^item> \<open>createOrder i\<close>: the exchange; \<open>None\<close> when \<open>getExchange\<close> or \<open>createOrder\<close> throws;
  \<^item> \<open>savePosition i\<close>: whether the database write of \<open>addPosition\<close> resolves;
  \<^item> \<open>getMarketData\<close>, \<open>predict\<close>: the data feed and the predictor, \<open>None\<close> when they throw;
  \<^item> \<open>generateSignalId i\<close>, \<open>nowSignal i\<close>: the id and the timestamp given to a new signal.
\<close>

record Env =
  nowCheck :: "nat \<Rightarrow> int"
  nowFill :: "nat \<Rightarrow> int"
  createOrder :: "nat \<Rightarrow> OrderRequest \<Rightarrow> Order option"
  savePosition :: "nat \<Rightarrow> bool"
  getMarketData :: "string \<Rightarrow> MarketData option"
  predict :: "MarketData \<Rightarrow> Prediction option"
  generateSignalId :: "nat \<Rightarrow> string"
  nowSignal :: "nat \<Rightarrow> int"

text \<open>The calls that a cycle makes on the Risk Gate's sizing, on the exchange and on
  the ledger, in order, each tagged with the number of the signal it is made for.\<close>

datatype Call =
    SizeCall nat
  | OrderCall nat OrderRequest
  | LedgerCall nat Position

fun call_index :: "Call \<Rightarrow> nat" where
  "call_index (SizeCall i) = i"
| "call_index (OrderCall i rq) = i"
| "call_index (LedgerCall i p) = i"

record Engine =
  isRunning :: bool
  signalQueue :: "Signal list"
  portfolioManager :: Portfolio
  riskManager :: RiskManager
  calls :: "Call list"

definition tradingPairs :: "string list" where
  "tradingPairs =
     [''BTC/USDT'', ''ETH/USDT'', ''BNB/USDT'', ''SOL/USDT'', ''ADA/USDT'',
      ''XRP/USDT'', ''DOT/USDT'', ''DOGE/USDT'', ''AVAX/USDT'', ''MATIC/USDT'']"

fun action_string :: "Action \<Rightarrow> string" where
  "action_string BUY = ''BUY''"
| "action_string SELL = ''SELL''"

fun action_lower :: "Action \<Rightarrow> string" where
  \<comment> \<open>\<open>signal.action.toLowerCase()\<close>\<close>
  "action_lower BUY = ''buy''"
| "action_lower SELL = ''sell''"

definition predictionStep :: "Env \<Rightarrow> nat \<Rightarrow> string \<Rightarrow> Engine \<Rightarrow> Engine" where
  \<comment> \<open>the body of the loop of \<open>runPredictionCycle\<close>; an exception skips the pair\<close>
  "predictionStep env i pair eng =
     (case getMarketData env pair of
        None \<Rightarrow> eng
      | Some marketData \<Rightarrow>
          (case predict env marketData of
             None \<Rightarrow> eng
           | Some prediction \<Rightarrow>
               (case analyzeSignal (generateSignalId env i) (nowSignal env i)
                       pair prediction marketData of
                  None \<Rightarrow> eng
                | Some signal \<Rightarrow>
                    (case validateSignal (riskManager eng) signal of
                       (validated, rm') \<Rightarrow>
                         if validated
                         then eng\<lparr> riskManager := rm',
                                   signalQueue := signalQueue eng @ [signal] \<rparr>
                         else eng\<lparr> riskManager := rm' \<rparr>))))"

fun runPredictionCycle_loop :: "Env \<Rightarrow> nat \<Rightarrow> string list \<Rightarrow> Engine \<Rightarrow> Engine" where
  "runPredictionCycle_loop env i [] eng = eng"
| "runPredictionCycle_loop env i (pair # rest) eng =
     runPredictionCycle_loop env (Suc i) rest (predictionStep env i pair eng)"

definition runPredictionCycle :: "Env \<Rightarrow> Engine \<Rightarrow> Engine" where
  "runPredictionCycle env eng =
     (if \<not> isRunning eng then eng
      else runPredictionCycle_loop env 0 tradingPairs eng)"

definition setProtectionOrders :: "Env \<Rightarrow> nat \<Rightarrow> Signal \<Rightarrow> real \<Rightarrow> Call list" where
  \<comment> \<open>the calls made; a throw of the first order skips the second, and is caught\<close>
  "setProtectionOrders env i signal amount =
     (let stopOrder =
            \<lparr> q_symbol = s_symbol signal,
              q_type = ''stop_loss'',
              q_side = (if s_action signal = BUY then ''sell'' else ''buy''),
              q_amount = amount,
              q_price = s_stopLoss signal,
              q_stopPrice = Some (s_stopLoss signal) \<rparr>;
          profitOrder =
            \<lparr> q_symbol = s_symbol signal,
              q_type = ''take_profit'',
              q_side = (if s_action signal = BUY then ''sell'' else ''buy''),
              q_amount = amount,
              q_price = s_takeProfit signal,
              q_stopPrice = Some (s_takeProfit signal) \<rparr>
      in case createOrder env i stopOrder of
           None \<Rightarrow> [OrderCall i stopOrder]
         | Some _ \<Rightarrow> [OrderCall i stopOrder, OrderCall i profitOrder])"

definition executeOrder :: "Env \<Rightarrow> nat \<Rightarrow> Signal \<Rightarrow> real \<Rightarrow> Order option \<times> Call list" where
  "executeOrder env i signal amount =
     (let orderParams =
            \<lparr> q_symbol = s_symbol signal,
              q_type = ''limit'',
              q_side = action_lower (s_action signal),
              q_amount = amount,
              q_price = s_price signal,
              q_stopPrice = None \<rparr>
      in case createOrder env i orderParams of
           None \<Rightarrow> (None, [OrderCall i orderParams])
         | Some order \<Rightarrow>
             (Some order,
              OrderCall i orderParams #
                (if o_id order \<noteq> [] then setProtectionOrders env i signal amount else [])))"

definition executeSignal :: "Env \<Rightarrow> nat \<Rightarrow> Signal \<Rightarrow> Engine \<Rightarrow> Engine" where
  \<comment> \<open>the body of the loop of \<open>executeSignals\<close>, for the \<open>i\<close>-th signal taken off the queue\<close>
  "executeSignal env i signal eng =
     (if nowCheck env i - s_timestamp signal > 300000 then eng
      else
        (let positionSize = calculatePositionSize (riskManager eng) signal;
             eng1 = eng\<lparr> calls := calls eng @ [SizeCall i] \<rparr>
         in if positionSize = 0 then eng1
            else
              (case executeOrder env i signal positionSize of
                 (None, made) \<Rightarrow> eng1\<lparr> calls := calls eng1 @ made \<rparr>
               | (Some order, made) \<Rightarrow>
                   (let position =
                          \<lparr> p_id = o_id order,
                            p_symbol = s_symbol signal,
                            p_side = action_string (s_action signal),
                            p_entryPrice = o_price order,
                            p_quantity = o_amount order,
                            p_currentPrice = None,
                            p_value = None,
                            p_unrealizedPnl = None,
                            p_realizedPnl = None,
                            p_stopLoss = Some (s_stopLoss signal),
                            p_takeProfit = Some (s_takeProfit signal),
                            p_timestamp = Some (nowFill env i) \<rparr>
                    in eng1\<lparr> calls := calls eng1 @ made @ [LedgerCall i position],
                             portfolioManager :=
                               snd (addPosition (savePosition env i) position
                                      (portfolioManager eng1)) \<rparr>))))"

fun executeSignals_loop :: "Env \<Rightarrow> nat \<Rightarrow> Signal list \<Rightarrow> Engine \<Rightarrow> Engine" where
  \<comment> \<open>\<open>while (queue.length > 0) { signal = queue.shift(); ... }\<close>\<close>
  "executeSignals_loop env i [] eng = eng"
| "executeSignals_loop env i (signal # rest) eng =
     executeSignals_loop env (Suc i) rest
       (executeSignal env i signal (eng\<lparr> signalQueue := rest \<rparr>))"

definition executeSignals :: "Env \<Rightarrow> Engine \<Rightarrow> Engine" where
  "executeSignals env eng =
     (if \<not> isRunning eng \<or> length (signalQueue eng) = 0 then eng
      else executeSignals_loop env 0 (signalQueue eng) eng)"

record RiskConfig =
  c_maxPositionSize :: "real option"
  c_maxDrawdown :: "real option"
  c_riskPerTrade :: "real option"
  c_maxOpenPositions :: "real option"

definition loadRiskParameters :: "RiskConfig \<Rightarrow> RiskManager" where
  \<comment> \<open>the constructor of \<open>RiskManager\<close>: the field initialisers and \<open>loadRiskParameters\<close>\<close>
  "loadRiskParameters config =
     \<lparr> r_maxPositionSize = js_or (c_maxPositionSize config) 10000,
       r_maxDrawdown = js_or (c_maxDrawdown config) 0.2,
       r_riskPerTrade = js_or (c_riskPerTrade config) 0.02,
       r_maxOpenPositions = js_or (c_maxOpenPositions config) 10,
       r_currentDrawdown = 0,
       r_peakBalance = 0,
       r_correlationMatrix = [] \<rparr>"

section \<open>Sequences of ledger operations\<close>
















section \<open>Concrete inputs\<close>

text \<open>States and inputs at which the theorems below are evaluated.\<close>

definition shortPosition :: Position where
  "shortPosition =
     \<lparr> p_id = ''o1'', p_symbol = ''BTC/USDT'', p_side = ''SELL'',
       p_entryPrice = 100, p_quantity = 1,
       p_currentPrice = None, p_value = None, p_unrealizedPnl = None, p_realizedPnl = None,
       p_stopLoss = Some 102, p_takeProfit = Some 95, p_timestamp = Some 0 \<rparr>"

definition shortLedger :: Portfolio where
  \<comment> \<open>the ledger after \<open>addPosition shortPosition\<close> on a new ledger\<close>
  "shortLedger =
     \<lparr> positions = [(''o1'', shortPosition)],
       balance = [(Some ''USDT'', 10100), (Some ''BTC'', - 1), (Some ''ETH'', 0)],
       performanceHistory = [] \<rparr>"

definition winningTrade :: Trade where
  "winningTrade =
     \<lparr> t_positionId = ''o1'', t_symbol = ''BTC/USDT'', t_side = ''BUY'',
       t_entryPrice = 100, t_exitPrice = 150, t_quantity = 1, t_pnl = 50,
       t_timestamp = 0 \<rparr>"

definition neutralForecast :: Prediction where
  "neutralForecast =
     \<lparr> pr_confidence = 0.7, pr_direction = Neutral, pr_predictedPrice = 101.5,
       pr_timeframe = ''1h'' \<rparr>"

definition quietMarket :: MarketData where
  "quietMarket =
     \<lparr> md_symbol = ''BTC/USDT'', md_price = 100, md_volume = 1, md_volatility = 0.1,
       md_timestamp = 0, md_rsi = None, md_macd = None \<rparr>"

definition defaultRisk :: RiskManager where
  "defaultRisk =
     loadRiskParameters
       \<lparr> c_maxPositionSize = None, c_maxDrawdown = None, c_riskPerTrade = None,
         c_maxOpenPositions = None \<rparr>"

definition longSignal :: Signal where
  \<comment> \<open>the sizing scenario of the specification: price 100, stop 98, target 105,
      confidence 0.8\<close>
  "longSignal =
     \<lparr> s_id = ''sig_1'', s_symbol = ''BTC/USDT'', s_action = BUY, s_price = 100,
       s_targetPrice = 105, s_stopLoss = 98, s_takeProfit = 105, s_confidence = 0.8,
       s_timeframe = ''1h'', s_timestamp = 0,
       s_metadata = Some \<lparr> m_priceChange = Some 5, m_volume = Some 1,
                            m_volatility = Some 0.1, m_rsi = None, m_macd = None \<rparr> \<rparr>"

definition upForecast :: Prediction where
  "upForecast =
     \<lparr> pr_confidence = 0.8, pr_direction = Up, pr_predictedPrice = 105,
       pr_timeframe = ''1h'' \<rparr>"

definition freshSignal :: Signal where
  \<comment> \<open>what \<open>analyzeSignal\<close> makes of \<open>upForecast\<close> at time 399000\<close>
  "freshSignal = longSignal\<lparr> s_id := ''sig_2'', s_timestamp := 399000 \<rparr>"

definition demoEnv :: Env where
  \<comment> \<open>every expiry test reads the clock at 400000; the exchange fills every order as
      requested; only BTC/USDT has market data\<close>
  "demoEnv =
     \<lparr> nowCheck = (\<lambda>i. 400000),
       nowFill = (\<lambda>i. 400001),
       createOrder =
         (\<lambda>i rq. Some \<lparr> o_id = ''o2'', o_price = q_price rq, o_amount = q_amount rq \<rparr>),
       savePosition = (\<lambda>i. True),
       getMarketData = (\<lambda>pair. if pair = ''BTC/USDT'' then Some quietMarket else None),
       predict = (\<lambda>md. Some upForecast),
       generateSignalId = (\<lambda>i. ''sig_2''),
       nowSignal = (\<lambda>i. 399000) \<rparr>"

definition demoEngine :: Engine where
  \<comment> \<open>a queue of two signals: the first created at time 0, the second at 399000\<close>
  "demoEngine =
     \<lparr> isRunning = True,
       signalQueue = [longSignal, freshSignal],
       portfolioManager = initialPortfolio,
       riskManager = defaultRisk,
       calls = [] \<rparr>"

definition longPosition :: Position where
  "longPosition =
     \<lparr> p_id = ''o1'', p_symbol = ''BTC/USDT'', p_side = ''BUY'',
       p_entryPrice = 100, p_quantity = 1,
       p_currentPrice = None, p_value = None, p_unrealizedPnl = None, p_realizedPnl = None,
       p_stopLoss = Some 98, p_takeProfit = Some 105, p_timestamp = Some 0 \<rparr>"

definition longLedger :: Portfolio where
  \<comment> \<open>the ledger after \<open>addPosition longPosition\<close> on a new ledger\<close>
  "longLedger =
     \<lparr> positions = [(''o1'', longPosition)],
       balance = [(Some ''USDT'', 9900), (Some ''BTC'', 1), (Some ''ETH'', 0)],
       performanceHistory = [] \<rparr>"

definition pyramidEngine :: Engine where
  \<comment> \<open>a running engine whose ledger already holds a BUY position on BTC/USDT\<close>
  "pyramidEngine =
     \<lparr> isRunning = True,
       signalQueue = [],
       portfolioManager = longLedger,
       riskManager = defaultRisk,
       calls = [] \<rparr>"





definition noUpdates :: PositionUpdates where
  \<comment> \<open>the empty object \<open>{}\<close>\<close>
  "noUpdates =
     \<lparr> u_id = None, u_symbol = None, u_side = None, u_entryPrice = None, u_quantity = None,
       u_currentPrice = None, u_value = None, u_unrealizedPnl = None, u_realizedPnl = None,
       u_stopLoss = None, u_takeProfit = None, u_timestamp = None \<rparr>"

section \<open>Evaluation helpers\<close>

lemma split_symbol_BTC_USDT: "split_symbol ''BTC/USDT'' = (Some ''BTC'', Some ''USDT'')"
  by (simp add: split_symbol_def)

lemma shortLedger_reached:
  "addPosition True shortPosition initialPortfolio = (None, shortLedger)"
  by (simp add: addPosition_def shortPosition_def shortLedger_def initialPortfolio_def
        split_symbol_BTC_USDT get_or0_def js_or_def)

lemma longLedger_reached:
  "addPosition True longPosition initialPortfolio = (None, longLedger)"
  by (simp add: addPosition_def longPosition_def longLedger_def initialPortfolio_def
        split_symbol_BTC_USDT get_or0_def js_or_def)

lemma freshSignal_fields:
  "s_price freshSignal = 100" "s_stopLoss freshSignal = 98" "s_takeProfit freshSignal = 105"
  "s_confidence freshSignal = 0.8" "s_symbol freshSignal = ''BTC/USDT''"
  "s_action freshSignal = BUY" "s_timestamp freshSignal = 399000"
  "volatility_of freshSignal = Some 0.1"
  by (simp_all add: freshSignal_def longSignal_def volatility_of_def)

lemma defaultRisk_fields:
  "r_maxPositionSize defaultRisk = 10000" "r_maxDrawdown defaultRisk = 0.2"
  "r_riskPerTrade defaultRisk = 0.02" "r_maxOpenPositions defaultRisk = 10"
  "r_currentDrawdown defaultRisk = 0" "r_correlationMatrix defaultRisk = []"
  by (simp_all add: defaultRisk_def loadRiskParameters_def js_or_def)

lemma kelly_freshSignal: "calculateKellyFraction freshSignal = 0.18"
  by (simp add: calculateKellyFraction_def longSignal_def freshSignal_def)

lemma size_freshSignal: "calculatePositionSize defaultRisk freshSignal = 18"
  by (simp add: calculatePositionSize_def kelly_freshSignal getVolatilityMultiplier_def
        js_or_def getAccountBalance_def js_round_def freshSignal_fields defaultRisk_fields)

lemma validate_freshSignal: "validateSignal defaultRisk freshSignal = (True, defaultRisk)"
  by (simp add: validateSignal_def kelly_freshSignal checkCorrelationRisk_def
        getOpenPositions_def getOpenPositionsCount_def js_or_def
        freshSignal_fields defaultRisk_fields)

lemma analyze_upForecast:
  "analyzeSignal ''sig_2'' 399000 ''BTC/USDT'' upForecast quietMarket = Some freshSignal"
  by (simp add: analyzeSignal_def upForecast_def quietMarket_def freshSignal_def longSignal_def
        calculateStopLoss_def calculateTakeProfit_def)

lemma cycle_queues_freshSignal:
  "runPredictionCycle demoEnv pyramidEngine = pyramidEngine\<lparr> signalQueue := [freshSignal] \<rparr>"
  by (simp add: runPredictionCycle_def tradingPairs_def predictionStep_def demoEnv_def
        pyramidEngine_def analyze_upForecast validate_freshSignal)

lemma cycle_then_execute:
  "executeSignals demoEnv (runPredictionCycle demoEnv pyramidEngine) =
     pyramidEngine
       \<lparr> portfolioManager :=
           \<lparr> positions = [(''o1'', longPosition),
                          (''o2'', longPosition\<lparr> p_id := ''o2'', p_quantity := 18,
                                                 p_timestamp := Some 400001 \<rparr>)],
             balance = [(Some ''USDT'', 8100), (Some ''BTC'', 19), (Some ''ETH'', 0)],
             performanceHistory = [] \<rparr>,
         calls :=
           [SizeCall 0,
            OrderCall 0 \<lparr> q_symbol = ''BTC/USDT'', q_type = ''limit'', q_side = ''buy'',
                           q_amount = 18, q_price = 100, q_stopPrice = None \<rparr>,
            OrderCall 0 \<lparr> q_symbol = ''BTC/USDT'', q_type = ''stop_loss'', q_side = ''sell'',
                           q_amount = 18, q_price = 98, q_stopPrice = Some 98 \<rparr>,
            OrderCall 0 \<lparr> q_symbol = ''BTC/USDT'', q_type = ''take_profit'', q_side = ''sell'',
                           q_amount = 18, q_price = 105, q_stopPrice = Some 105 \<rparr>,
            LedgerCall 0 (longPosition\<lparr> p_id := ''o2'', p_quantity := 18,
                                        p_timestamp := Some 400001 \<rparr>)] \<rparr>"
  unfolding cycle_queues_freshSignal
  by (simp add: executeSignals_def executeSignal_def pyramidEngine_def
        demoEnv_def size_freshSignal executeOrder_def setProtectionOrders_def
        freshSignal_fields addPosition_def longLedger_def longPosition_def
        split_symbol_BTC_USDT get_or0_def js_or_def Let_def)

lemma demoEngine_executed:
  "executeSignals demoEnv demoEngine =
     demoEngine
       \<lparr> signalQueue := [],
         portfolioManager :=
           \<lparr> positions = [(''o2'', longPosition\<lparr> p_id := ''o2'', p_quantity := 18,
                                                 p_timestamp := Some 400001 \<rparr>)],
             balance = [(Some ''USDT'', 8200), (Some ''BTC'', 18), (Some ''ETH'', 0)],
             performanceHistory = [] \<rparr>,
         calls :=
           [SizeCall 1,
            OrderCall 1 \<lparr> q_symbol = ''BTC/USDT'', q_type = ''limit'', q_side = ''buy'',
                           q_amount = 18, q_price = 100, q_stopPrice = None \<rparr>,
            OrderCall 1 \<lparr> q_symbol = ''BTC/USDT'', q_type = ''stop_loss'', q_side = ''sell'',
                           q_amount = 18, q_price = 98, q_stopPrice = Some 98 \<rparr>,
            OrderCall 1 \<lparr> q_symbol = ''BTC/USDT'', q_type = ''take_profit'', q_side = ''sell'',
                           q_amount = 18, q_price = 105, q_stopPrice = Some 105 \<rparr>,
            LedgerCall 1 (longPosition\<lparr> p_id := ''o2'', p_quantity := 18,
                                        p_timestamp := Some 400001 \<rparr>)] \<rparr>"
proof -
  have old: "s_timestamp longSignal = 0" by (simp add: longSignal_def)
  show ?thesis
    by (simp add: executeSignals_def executeSignal_def demoEngine_def old
        demoEnv_def size_freshSignal executeOrder_def setProtectionOrders_def
        freshSignal_fields addPosition_def initialPortfolio_def longPosition_def
        split_symbol_BTC_USDT get_or0_def js_or_def Let_def)
qed

section \<open>Protective exits in updatePrices\<close>

text \<open>The exit test on a ledger that holds one position, at a tick that prices its
  symbol: whether the position is closed does not depend on its side.\<close>

lemma single_position_exit_test:
  assumes "prices (p_symbol p) = Some cp" and "cp \<noteq> 0"
  shows "(positions (snd (updatePrices db clock prices
            \<lparr> positions = [(p_id p, p)], balance = b, performanceHistory = h \<rparr>)) = [])
       = ((case p_stopLoss p of None \<Rightarrow> False | Some sl \<Rightarrow> sl \<noteq> 0 \<and> cp \<le> sl)
          \<or> (case p_takeProfit p of None \<Rightarrow> False | Some tp \<Rightarrow> tp \<noteq> 0 \<and> cp \<ge> tp))"
  using assms
  by (auto simp add: updatePrices_def closePosition_def Let_def case_prod_unfold
        split: option.splits)


text \<open>
  Claim C1 says that the exit test of \<open>updatePrices\<close> is mirrored for a SELL position:
  its stop-loss closes it at a price at or above \<open>stopLoss\<close>, its take-profit at a price at
  or below \<open>takeProfit\<close>. The code has one test for both sides, that of a BUY (lemma
  \<open>single_position_exit_test\<close>). A short
  position opened at 100 with its stop at 102 and its target at 95 (the placement that
  \<open>calculateStopLoss\<close> and \<open>calculateTakeProfit\<close> give a SELL signal) is closed by a
  tick at 100, a price strictly between target and stop: \<open>100 \<le> 102\<close> passes the
  stop-loss test written for a BUY.
\<close>

theorem sell_position_closed_between_target_and_stop:
  "updatePrices (\<lambda>_. True) (\<lambda>_. 5) (\<lambda>s. if s = ''BTC/USDT'' then Some 100 else None)
     shortLedger
   = (None,
      \<lparr> positions = [],
        balance = [(Some ''USDT'', 10000), (Some ''BTC'', 0), (Some ''ETH'', 0)],
        performanceHistory =
          [\<lparr> t_positionId = ''o1'', t_symbol = ''BTC/USDT'', t_side = ''SELL'',
             t_entryPrice = 100, t_exitPrice = 100, t_quantity = 1, t_pnl = 0,
             t_timestamp = 5 \<rparr>] \<rparr>)"
  by (simp add: updatePrices_def shortLedger_def shortPosition_def closePosition_def
        calculatePnL_def recordPerformance_def split_symbol_BTC_USDT get_or0_def js_or_def
        AList.delete_eq)

section \<open>Performance metrics\<close>

lemma nonempty_history_fields:
  "trades \<noteq> [] \<Longrightarrow>
   map fst (getPerformanceMetrics trades) =
     [''totalTrades'', ''winningTrades'', ''losingTrades'', ''winRate'', ''totalPnL'',
      ''averagePnL'', ''bestTrade'', ''worstTrade'', ''profitFactor'', ''expectancy'',
      ''averageWin'', ''averageLoss'', ''sharpeRatio'', ''maxDrawdown'', ''equityCurve'']"
  by (simp add: getPerformanceMetrics_def Let_def)

text \<open>
  Claim C3 says that on an empty history every metric that a non-empty history yields
  is present and zero. The early return of \<open>getPerformanceMetrics\<close> lists ten fields;
  \<open>averageWin\<close>, \<open>averageLoss\<close>, \<open>sharpeRatio\<close>, \<open>maxDrawdown\<close> and \<open>equityCurve\<close>, which
  the other branch returns (lemma \<open>nonempty_history_fields\<close>), are absent from it, so
  reading them gives \<open>undefined\<close>.
\<close>

theorem empty_history_metrics_lack_fields:
  "map fst (getPerformanceMetrics []) =
     [''totalTrades'', ''winningTrades'', ''losingTrades'', ''winRate'', ''totalPnL'',
      ''averagePnL'', ''bestTrade'', ''worstTrade'', ''profitFactor'', ''expectancy'']
   \<and> map_of (getPerformanceMetrics []) ''averageWin'' = None
   \<and> map_of (getPerformanceMetrics []) ''averageLoss'' = None
   \<and> map_of (getPerformanceMetrics []) ''sharpeRatio'' = None
   \<and> map_of (getPerformanceMetrics []) ''maxDrawdown'' = None
   \<and> map_of (getPerformanceMetrics []) ''equityCurve'' = None
   \<and> map fst (getPerformanceMetrics [winningTrade]) =
     [''totalTrades'', ''winningTrades'', ''losingTrades'', ''winRate'', ''totalPnL'',
      ''averagePnL'', ''bestTrade'', ''worstTrade'', ''profitFactor'', ''expectancy'',
      ''averageWin'', ''averageLoss'', ''sharpeRatio'', ''maxDrawdown'', ''equityCurve'']"
  by (simp add: getPerformanceMetrics_def Let_def)

lemma foldl_add_sum_list:
  "foldl (\<lambda>sum t. sum + f t) a xs = a + sum_list (map f xs)" for a :: real
  by (induction xs arbitrary: a) simp_all

lemma sum_list_negative:
  "xs \<noteq> [] \<Longrightarrow> list_all (\<lambda>t. t < 0) xs \<Longrightarrow> sum_list xs < 0" for xs :: "real list"
proof (induction xs)
  case Nil
  then show ?case by simp
next
  case (Cons x xs)
  then show ?case by (cases xs) auto
qed

lemma calculateProfitFactor_spec:
  "calculateProfitFactor profits =
     (if filter (\<lambda>t. t < 0) profits \<noteq> []
      then sum_list (filter (\<lambda>t. t > 0) profits) / \<bar>sum_list (filter (\<lambda>t. t < 0) profits)\<bar>
      else sum_list (filter (\<lambda>t. t > 0) profits))"
proof (cases "filter (\<lambda>t. t < 0) profits = []")
  case True
  then show ?thesis
    using foldl_add_sum_list [of "\<lambda>t. t" 0]
    by (simp add: calculateProfitFactor_def)
next
  case False
  have "list_all (\<lambda>t. t < 0) (filter (\<lambda>t. t < 0) profits)"
    by (simp add: list_all_iff)
  with False have "sum_list (filter (\<lambda>t. t < 0) profits) < 0"
    by (rule sum_list_negative)
  with False show ?thesis
    using foldl_add_sum_list [of "\<lambda>t. t" 0]
    by (simp add: calculateProfitFactor_def)
qed

text \<open>
  Claim C6 says that the profit factor of a history without losing trades is the gross
  profit. \<open>getPerformanceMetrics\<close> returns \<open>0\<close> whenever the gross loss is \<open>0\<close>: for a
  history of one trade that won 50 the field \<open>profitFactor\<close> is \<open>0\<close>, not \<open>50\<close>. The
  formula of the claim is the one of \<open>RiskManager.calculateProfitFactor\<close> (lemma
  \<open>calculateProfitFactor_spec\<close>), which gives \<open>50\<close> on the same profits.
\<close>

theorem profit_without_losses_gives_zero_factor:
  "map_of (getPerformanceMetrics [winningTrade]) ''profitFactor'' = Some (Num 0)
   \<and> foldl (\<lambda>sum t. sum + t_pnl t) 0 (filter (\<lambda>t. t_pnl t > 0) [winningTrade]) = 50
   \<and> filter (\<lambda>t. t_pnl t < 0) [winningTrade] = []
   \<and> calculateProfitFactor (map t_pnl [winningTrade]) = 50"
  by (simp add: getPerformanceMetrics_def winningTrade_def calculateProfitFactor_def)

section \<open>Signal generation\<close>

text \<open>
  Claim C4 says that a forecast with direction \<open>neutral\<close> that passes the confidence and
  magnitude gates produces no signal. \<open>analyzeSignal\<close> tests \<open>direction === 'up'\<close> only, so
  every other direction is a SELL: a neutral forecast with confidence 0.7 and a
  predicted rise of 1.5% yields a SELL signal with the stop above and the target below
  the price.
\<close>

theorem neutral_forecast_yields_sell:
  "analyzeSignal ''sig_1'' 1000 ''BTC/USDT'' neutralForecast quietMarket
   = Some \<lparr> s_id = ''sig_1'', s_symbol = ''BTC/USDT'', s_action = SELL,
            s_price = 100, s_targetPrice = 101.5, s_stopLoss = 102,
            s_takeProfit = 95, s_confidence = 0.7, s_timeframe = ''1h'',
            s_timestamp = 1000,
            s_metadata = Some \<lparr> m_priceChange = Some 1.5, m_volume = Some 1,
                                 m_volatility = Some 0.1, m_rsi = None, m_macd = None \<rparr> \<rparr>"
  by (simp add: analyzeSignal_def neutralForecast_def quietMarket_def
        calculateStopLoss_def calculateTakeProfit_def)

lemma directed_forecast_action:
  assumes "pr_confidence prediction \<ge> 0.65"
    and "md_price marketData \<noteq> 0"
    and "\<bar>(pr_predictedPrice prediction - md_price marketData) / md_price marketData * 100\<bar> \<ge> 1"
  shows "\<exists>signal. analyzeSignal sid now pair prediction marketData = Some signal
           \<and> s_action signal = (if pr_direction prediction = Up then BUY else SELL)"
  using assms by (simp add: analyzeSignal_def Let_def)

section \<open>Kelly fraction and position sizing\<close>

text \<open>
  Claim C8. For a signal with confidence in \<open>[0, 1]\<close> whose target and stop differ from its
  price, \<open>calculateKellyFraction\<close> is \<open>max(0, 0.25 \<sqdot> ((p\<sqdot>b - q) / b))\<close> with \<open>p\<close> the confidence,
  \<open>q = 1 - p\<close> and \<open>b = |targetPrice - price| / |price - stopLoss|\<close>; it lies in
  \<open>[0, 0.25]\<close>; and \<open>calculatePositionSize\<close> multiplies the base size
  \<open>riskAmount / |price - stopLoss|\<close> by \<open>min(kellyFraction, 0.25)\<close> before the volatility
  multiplier, the cap, the minimum and the rounding.
\<close>

theorem kelly_fraction_within_quarter:
  assumes "0 \<le> s_confidence signal" and "s_confidence signal \<le> 1"
    and "s_targetPrice signal \<noteq> s_price signal"
    and "s_stopLoss signal \<noteq> s_price signal"
  shows "calculateKellyFraction signal =
           max 0 (0.25 * ((s_confidence signal
                            * (\<bar>s_targetPrice signal - s_price signal\<bar>
                                 / \<bar>s_price signal - s_stopLoss signal\<bar>)
                           - (1 - s_confidence signal))
                          / (\<bar>s_targetPrice signal - s_price signal\<bar>
                               / \<bar>s_price signal - s_stopLoss signal\<bar>)))
       \<and> 0 \<le> calculateKellyFraction signal
       \<and> calculateKellyFraction signal \<le> 0.25
       \<and> calculatePositionSize rm signal =
           (let size = min (getAccountBalance * r_riskPerTrade rm
                             / \<bar>s_price signal - s_stopLoss signal\<bar>
                             * min (calculateKellyFraction signal) 0.25
                             * getVolatilityMultiplier signal)
                           (r_maxPositionSize rm)
            in if size < 10 then 0 else js_round (size * 100) / 100)"
proof -
  define p where "p = s_confidence signal"
  define b where
    "b = \<bar>s_targetPrice signal - s_price signal\<bar> / \<bar>s_price signal - s_stopLoss signal\<bar>"
  define f where "f = (p * b - (1 - p)) / b"
  have b: "0 < b" using assms by (simp add: b_def)
  have k: "calculateKellyFraction signal = max 0 (f * 0.25)"
    by (simp add: calculateKellyFraction_def p_def b_def f_def Let_def)
  have "f = p - (1 - p) / b" using b by (simp add: f_def field_simps)
  moreover have "0 \<le> (1 - p) / b" using b assms by (simp add: p_def)
  ultimately have "f \<le> 1" using assms by (simp add: p_def)
  then have bounds: "0 \<le> calculateKellyFraction signal \<and> calculateKellyFraction signal \<le> 0.25"
    unfolding k by simp
  have formula: "calculateKellyFraction signal = max 0 (0.25 * ((p * b - (1 - p)) / b))"
    unfolding k f_def by (simp add: mult.commute)
  have sizing: "calculatePositionSize rm signal =
           (let size = min (getAccountBalance * r_riskPerTrade rm
                             / \<bar>s_price signal - s_stopLoss signal\<bar>
                             * min (calculateKellyFraction signal) 0.25
                             * getVolatilityMultiplier signal)
                           (r_maxPositionSize rm)
            in if size < 10 then 0 else js_round (size * 100) / 100)"
    by (simp add: calculatePositionSize_def Let_def)
  from formula bounds sizing show ?thesis
    unfolding p_def b_def by blast
qed

theorem kelly_fraction_within_quarter_witness:
  "0 \<le> s_confidence longSignal \<and> s_confidence longSignal \<le> 1
   \<and> s_targetPrice longSignal \<noteq> s_price longSignal
   \<and> s_stopLoss longSignal \<noteq> s_price longSignal
   \<and> calculateKellyFraction longSignal = 0.18
   \<and> 0 \<le> calculateKellyFraction longSignal
   \<and> calculateKellyFraction longSignal \<le> 0.25
   \<and> calculatePositionSize defaultRisk longSignal = 18"
proof -
  have h1: "0 \<le> s_confidence longSignal" and h2: "s_confidence longSignal \<le> 1"
    and h3: "s_targetPrice longSignal \<noteq> s_price longSignal"
    and h4: "s_stopLoss longSignal \<noteq> s_price longSignal"
    by (simp_all add: longSignal_def)
  have k: "calculateKellyFraction longSignal = 0.18"
    by (simp add: calculateKellyFraction_def longSignal_def)
  have v: "getVolatilityMultiplier longSignal = 1"
    by (simp add: getVolatilityMultiplier_def volatility_of_def longSignal_def js_or_def)
  have r: "r_riskPerTrade defaultRisk = 0.02 \<and> r_maxPositionSize defaultRisk = 10000"
    by (simp add: defaultRisk_def loadRiskParameters_def js_or_def)
  have d: "\<bar>s_price longSignal - s_stopLoss longSignal\<bar> = 2"
    by (simp add: longSignal_def)
  from kelly_fraction_within_quarter [OF h1 h2 h3 h4, of defaultRisk]
  have "calculatePositionSize defaultRisk longSignal = 18"
    by (simp add: k v r d getAccountBalance_def js_round_def)
  with kelly_fraction_within_quarter [OF h1 h2 h3 h4, of defaultRisk] h1 h2 h3 h4 k
  show ?thesis by simp
qed

section \<open>The Risk Gate and open positions\<close>

text \<open>
  \<open>validateSignal\<close> has a path that rejects a signal on an instrument that is already
  held: \<open>checkCorrelationRisk\<close> ("check correlation with existing positions") takes the
  largest correlation with the open positions, a position with the same base asset
  correlates at 1.0, and a risk above 0.8 rejects. Run over the positions of a ledger
  that holds BTC/USDT, the loop gives 1 for a BTC/USDT signal.
\<close>

lemma correlation_with_ledger_positions:
  "fst (correlation_loop (s_symbol freshSignal) (map snd (positions longLedger)) 0
          (r_correlationMatrix defaultRisk)) = 1"
  by (simp add: freshSignal_fields defaultRisk_fields longLedger_def longPosition_def
        getCorrelation_def calculateBaseCorrelation_def base_of_def Let_def)

text \<open>
  The loop is never given those positions. \<open>getOpenPositions\<close> and
  \<open>getOpenPositionsCount\<close> are the "mock methods" of the class (an empty list, the number
  3), so the verdict of \<open>validateSignal\<close> is settled by the risk parameters and the
  signal alone, and what a prediction step queues is the same for every ledger.
\<close>

lemma validateSignal_verdict:
  assumes "s_stopLoss signal \<noteq> s_price signal" and "s_targetPrice signal \<noteq> s_price signal"
  shows "fst (validateSignal rm signal) =
     (r_currentDrawdown rm \<le> r_maxDrawdown rm
      \<and> 3 < r_maxOpenPositions rm
      \<and> 0.65 \<le> s_confidence signal
      \<and> js_or (volatility_of signal) 0 \<le> 0.5
      \<and> 0.01 \<le> calculateKellyFraction signal)"
  by (simp add: validateSignal_def checkCorrelationRisk_def getOpenPositions_def
        getOpenPositionsCount_def Let_def not_less)

lemma predictionStep_ignores_ledger:
  "signalQueue (predictionStep env i pair (eng\<lparr> portfolioManager := ledger \<rparr>))
       = signalQueue (predictionStep env i pair eng)"
  by (simp add: predictionStep_def split: option.splits prod.splits)

text \<open>
  Claim C5 says that validating a BUY signal for an instrument that already has an open
  position rejects it, so that the pipeline never holds two open positions for one
  (instrument, side). The code does not do so: with a BUY position on BTC/USDT in the
  ledger, a prediction cycle validates and queues a BUY signal for BTC/USDT, and the
  execution cycle registers a second BUY position on BTC/USDT.
\<close>

theorem second_position_on_same_instrument:
  "map (\<lambda>(k, p). (k, p_symbol p, p_side p)) (positions (portfolioManager pyramidEngine))
     = [(''o1'', ''BTC/USDT'', ''BUY'')]
   \<and> s_symbol freshSignal = ''BTC/USDT'' \<and> s_action freshSignal = BUY
   \<and> fst (validateSignal (riskManager pyramidEngine) freshSignal)
   \<and> signalQueue (runPredictionCycle demoEnv pyramidEngine) = [freshSignal]
   \<and> map (\<lambda>(k, p). (k, p_symbol p, p_side p))
        (positions (portfolioManager
           (executeSignals demoEnv (runPredictionCycle demoEnv pyramidEngine))))
     = [(''o1'', ''BTC/USDT'', ''BUY''), (''o2'', ''BTC/USDT'', ''BUY'')]"
proof -
  have a: "map (\<lambda>(k, p). (k, p_symbol p, p_side p)) (positions (portfolioManager pyramidEngine))
             = [(''o1'', ''BTC/USDT'', ''BUY'')]"
    by (simp add: pyramidEngine_def longLedger_def longPosition_def)
  have b: "fst (validateSignal (riskManager pyramidEngine) freshSignal)"
    by (simp add: pyramidEngine_def validate_freshSignal)
  have c: "signalQueue (runPredictionCycle demoEnv pyramidEngine) = [freshSignal]"
    by (simp add: cycle_queues_freshSignal)
  have d: "map (\<lambda>(k, p). (k, p_symbol p, p_side p))
        (positions (portfolioManager
           (executeSignals demoEnv (runPredictionCycle demoEnv pyramidEngine))))
     = [(''o1'', ''BTC/USDT'', ''BUY''), (''o2'', ''BTC/USDT'', ''BUY'')]"
    unfolding cycle_then_execute by (simp add: longPosition_def)
  from a b c d show ?thesis by (simp add: freshSignal_fields)
qed

theorem second_position_on_same_instrument_witness:
  "map (\<lambda>(k, p). (k, p_symbol p, p_side p))
        (positions (portfolioManager
           (executeSignals demoEnv (runPredictionCycle demoEnv pyramidEngine))))
     = [(''o1'', ''BTC/USDT'', ''BUY''), (''o2'', ''BTC/USDT'', ''BUY'')]"
  using second_position_on_same_instrument by blast

section \<open>Expired signals\<close>

lemma executeSignal_expired:
  "nowCheck env i - s_timestamp signal > 300000 \<Longrightarrow> executeSignal env i signal eng = eng"
  by (simp add: executeSignal_def)

lemma executeOrder_calls:
  "list_all (\<lambda>c. call_index c = i) (snd (executeOrder env i signal amount))"
  by (simp add: executeOrder_def setProtectionOrders_def Let_def split: option.splits)

lemma executeSignal_calls:
  "\<exists>made. calls (executeSignal env i signal eng) = calls eng @ made
      \<and> list_all (\<lambda>c. call_index c = i
                        \<and> \<not> nowCheck env i - s_timestamp signal > 300000) made"
proof (cases "nowCheck env i - s_timestamp signal > 300000")
  case True
  then show ?thesis by (simp add: executeSignal_def)
next
  case False
  show ?thesis
  proof (cases "calculatePositionSize (riskManager eng) signal = 0")
    case True
    with False show ?thesis by (simp add: executeSignal_def Let_def)
  next
    case nz: False
    obtain ord made where
      e: "executeOrder env i signal (calculatePositionSize (riskManager eng) signal) = (ord, made)"
      by (cases "executeOrder env i signal (calculatePositionSize (riskManager eng) signal)")
    with executeOrder_calls [of i env signal "calculatePositionSize (riskManager eng) signal"]
    have m: "list_all (\<lambda>c. call_index c = i) made" by simp
    show ?thesis
      using False nz e m
      by (cases ord) (simp_all add: executeSignal_def Let_def list_all_iff)
  qed
qed

lemma executeSignals_loop_calls:
  "\<exists>made. calls (executeSignals_loop env i queue eng) = calls eng @ made
      \<and> list_all (\<lambda>c. i \<le> call_index c \<and> call_index c < i + length queue
            \<and> \<not> nowCheck env (call_index c)
                   - s_timestamp (queue ! (call_index c - i)) > 300000) made"
proof (induction queue arbitrary: i eng)
  case Nil
  then show ?case by simp
next
  case (Cons signal rest)
  let ?eng1 = "executeSignal env i signal (eng\<lparr>signalQueue := rest\<rparr>)"
  obtain m1 where m1: "calls ?eng1 = calls eng @ m1"
    "list_all (\<lambda>c. call_index c = i
                 \<and> \<not> nowCheck env i - s_timestamp signal > 300000) m1"
    using executeSignal_calls [of env i signal "eng\<lparr>signalQueue := rest\<rparr>"] by auto
  obtain m2 where m2: "calls (executeSignals_loop env (Suc i) rest ?eng1) = calls ?eng1 @ m2"
    "list_all (\<lambda>c. Suc i \<le> call_index c \<and> call_index c < Suc i + length rest
            \<and> \<not> nowCheck env (call_index c)
                   - s_timestamp (rest ! (call_index c - Suc i)) > 300000) m2"
    using Cons.IH [of "Suc i" ?eng1] by auto
  have a: "list_all (\<lambda>c. i \<le> call_index c \<and> call_index c < i + length (signal # rest)
            \<and> \<not> nowCheck env (call_index c)
                   - s_timestamp ((signal # rest) ! (call_index c - i)) > 300000) m1"
    using m1(2) by (simp add: list_all_iff)
  have b: "list_all (\<lambda>c. i \<le> call_index c \<and> call_index c < i + length (signal # rest)
            \<and> \<not> nowCheck env (call_index c)
                   - s_timestamp ((signal # rest) ! (call_index c - i)) > 300000) m2"
    using m2(2) by (auto simp add: list_all_iff Suc_diff_le)
  show ?case
    using m1(1) m2(1) a b by simp
qed

text \<open>
  Claim C9. A signal that is more than 300000 ms old when the execution cycle tests it
  (\<open>nowCheck env i\<close> is the reading of \<open>Date.now()\<close> in that test) is dropped: the loop
  body returns the engine as it found it, so no position size is computed, no order
  is sent and the ledger is not touched; and among the calls that the whole cycle
  makes on the sizing, the exchange and the ledger, none is made for that signal.
\<close>

theorem stale_signal_never_executed:
  assumes "i < length (signalQueue eng)"
    and "nowCheck env i - s_timestamp (signalQueue eng ! i) > 300000"
  shows "executeSignal env i (signalQueue eng ! i) st = st
       \<and> (\<exists>made. calls (executeSignals env eng) = calls eng @ made
              \<and> list_all (\<lambda>c. call_index c \<noteq> i) made)"
proof -
  have one: "executeSignal env i (signalQueue eng ! i) st = st"
    using assms(2) by (rule executeSignal_expired)
  obtain made where
    made: "calls (executeSignals_loop env 0 (signalQueue eng) eng) = calls eng @ made"
      "list_all (\<lambda>c. 0 \<le> call_index c \<and> call_index c < 0 + length (signalQueue eng)
            \<and> \<not> nowCheck env (call_index c)
                   - s_timestamp (signalQueue eng ! (call_index c - 0)) > 300000) made"
    using executeSignals_loop_calls [of env 0 "signalQueue eng" eng] by auto
  from made(2) assms(2) have "list_all (\<lambda>c. call_index c \<noteq> i) made"
    by (auto simp add: list_all_iff)
  with made(1) have "\<exists>made. calls (executeSignals env eng) = calls eng @ made
              \<and> list_all (\<lambda>c. call_index c \<noteq> i) made"
    by (cases "\<not> isRunning eng \<or> length (signalQueue eng) = 0")
       (auto simp add: executeSignals_def)
  with one show ?thesis by simp
qed

theorem stale_signal_never_executed_witness:
  "0 < length (signalQueue demoEngine)
   \<and> nowCheck demoEnv 0 - s_timestamp (signalQueue demoEngine ! 0) > 300000
   \<and> executeSignal demoEnv 0 (signalQueue demoEngine ! 0) demoEngine = demoEngine
   \<and> (\<exists>made. calls (executeSignals demoEnv demoEngine) = calls demoEngine @ made
          \<and> list_all (\<lambda>c. call_index c \<noteq> 0) made)
   \<and> map call_index (calls (executeSignals demoEnv demoEngine)) = [1, 1, 1, 1, 1]
   \<and> map fst (positions (portfolioManager (executeSignals demoEnv demoEngine))) = [''o2'']"
proof -
  have h1: "0 < length (signalQueue demoEngine)"
    by (simp add: demoEngine_def)
  have h2: "nowCheck demoEnv 0 - s_timestamp (signalQueue demoEngine ! 0) > 300000"
    by (simp add: demoEngine_def demoEnv_def longSignal_def)
  have e: "map call_index (calls (executeSignals demoEnv demoEngine)) = [1, 1, 1, 1, 1]
     \<and> map fst (positions (portfolioManager (executeSignals demoEnv demoEngine))) = [''o2'']"
    unfolding demoEngine_executed by simp
  from stale_signal_never_executed [OF h1 h2, of demoEngine] h1 h2 e
  show ?thesis by simp
qed

section \<open>Export and import\<close>

lemma update_fresh_key:
  "k \<notin> fst ` set al \<Longrightarrow> AList.update k v al = al @ [(k, v)]"
  by (induction al) auto

lemma foldl_update_distinct:
  "distinct (map f xs) \<Longrightarrow> set (map f xs) \<inter> fst ` set acc = {} \<Longrightarrow>
   foldl (\<lambda>m x. AList.update (f x) (g x) m) acc xs = acc @ map (\<lambda>x. (f x, g x)) xs"
proof (induction xs arbitrary: acc)
  case Nil
  then show ?case by simp
next
  case (Cons x xs)
  from Cons.prems have fresh: "f x \<notin> fst ` set acc" by auto
  have step: "AList.update (f x) (g x) acc = acc @ [(f x, g x)]"
    using fresh by (rule update_fresh_key)
  have "set (map f xs) \<inter> fst ` set (acc @ [(f x, g x)]) = {}"
    using Cons.prems by auto
  with Cons.IH [of "acc @ [(f x, g x)]"] Cons.prems step show ?case by simp
qed

lemma fromEntries_string_keys:
  assumes "distinct (map fst m)" and "list_all (\<lambda>(k, v). k \<noteq> None) m"
  shows "fromEntries m = map (\<lambda>(k, v). (key_string k, v)) m"
proof -
  have inj: "inj_on key_string (set (map fst m))"
    using assms(2) by (auto simp add: inj_on_def list_all_iff key_string_def split: option.splits)
  have d: "distinct (map (\<lambda>x. key_string (fst x)) m)"
    using assms(1) inj by (simp add: distinct_map comp_def inj_on_def)
  have "fromEntries m = foldl (\<lambda>obj x. AList.update (key_string (fst x)) (snd x) obj) [] m"
    by (simp add: fromEntries_def case_prod_unfold)
  also have "\<dots> = [] @ map (\<lambda>x. (key_string (fst x), snd x)) m"
    using d by (intro foldl_update_distinct) simp_all
  finally show ?thesis by (simp add: case_prod_beta)
qed

lemma import_balance_back:
  assumes "distinct (map fst m)" and "list_all (\<lambda>(k, v). k \<noteq> None) m"
  shows "foldl (\<lambda>b (asset, amount). AList.update (Some asset) amount b) [] (fromEntries m) = m"
proof -
  let ?obj = "map (\<lambda>(k, v). (key_string k, v)) m"
  have some: "\<And>k v. (k, v) \<in> set m \<Longrightarrow> Some (key_string k) = k"
    using assms(2) by (auto simp add: list_all_iff key_string_def split: option.splits)
  have keys: "map (\<lambda>x. Some (fst x)) ?obj = map fst m"
    using some by (auto simp add: case_prod_beta)
  have d: "distinct (map (\<lambda>x. Some (fst x)) ?obj)"
    unfolding keys by (rule assms(1))
  have "foldl (\<lambda>b (asset, amount). AList.update (Some asset) amount b) [] ?obj
        = foldl (\<lambda>b x. AList.update (Some (fst x)) (snd x) b) [] ?obj"
    by (simp add: case_prod_unfold)
  also have "\<dots> = [] @ map (\<lambda>x. (Some (fst x), snd x)) ?obj"
    using d by (intro foldl_update_distinct) simp_all
  also have "\<dots> = m"
    using some by (auto simp add: case_prod_beta intro: map_idI)
  finally show ?thesis
    using fromEntries_string_keys [OF assms] by simp
qed

lemma exported_fields_kept:
  "asPosition (exportPosition p) =
     p\<lparr> p_value := None, p_realizedPnl := None, p_stopLoss := None, p_takeProfit := None,
       p_timestamp := None \<rparr>"
  by (simp add: asPosition_def exportPosition_def)

lemma import_positions_back:
  assumes "distinct (map fst ps)" and "list_all (\<lambda>(k, p). p_id p = k) ps"
  shows "foldl (\<lambda>m pos. AList.update (x_id pos) (asPosition pos) m) []
           (map (\<lambda>p. exportPosition p) (map snd ps))
         = map (\<lambda>(k, p). (k, asPosition (exportPosition p))) ps"
proof -
  let ?xs = "map (\<lambda>p. exportPosition p) (map snd ps)"
  have ids: "map x_id ?xs = map fst ps"
    using assms(2) by (auto simp add: list_all_iff exportPosition_def)
  have d: "distinct (map x_id ?xs)" unfolding ids by (rule assms(1))
  have "foldl (\<lambda>m pos. AList.update (x_id pos) (asPosition pos) m) [] ?xs
        = [] @ map (\<lambda>x. (x_id x, asPosition x)) ?xs"
    using d by (intro foldl_update_distinct) simp_all
  also have "\<dots> = map (\<lambda>(k, p). (k, asPosition (exportPosition p))) ps"
    using assms(2) by (auto simp add: list_all_iff exportPosition_def)
  finally show ?thesis .
qed

text \<open>
  Claim C2 says that \<open>importPortfolio\<close> of what \<open>exportPortfolio\<close> returns reproduces the
  ledger, positions with all their fields and the whole trade history included. It
  does not: the exported position objects have no \<open>stopLoss\<close>, \<open>takeProfit\<close> or
  \<open>timestamp\<close>, so a ledger with an open position that has a stop-loss comes back
  without it.
\<close>

theorem export_import_loses_stop_loss:
  "importPortfolio (exportPortfolio 7 longLedger) longLedger \<noteq> longLedger"
proof
  assume eq: "importPortfolio (exportPortfolio 7 longLedger) longLedger = longLedger"
  have "map (\<lambda>(k, p). p_stopLoss p)
          (positions (importPortfolio (exportPortfolio 7 longLedger) longLedger)) = [None]"
    by (simp add: importPortfolio_def exportPortfolio_def longLedger_def asPosition_def)
  moreover have "map (\<lambda>(k, p). p_stopLoss p) (positions longLedger) = [Some 98]"
    by (simp add: longLedger_def longPosition_def)
  ultimately show False using eq by simp
qed

text \<open>
  Claim C2, amended. For a ledger whose positions are stored under their own ids and
  whose balance keys are all strings, export followed by import yields: the same
  positions in the same order, each keeping \<open>id\<close>, \<open>symbol\<close>, \<open>side\<close>, \<open>quantity\<close>,
  \<open>entryPrice\<close>, \<open>currentPrice\<close> and \<open>unrealizedPnl\<close> and losing \<open>value\<close>, \<open>realizedPnl\<close>,
  \<open>stopLoss\<close>, \<open>takeProfit\<close> and \<open>timestamp\<close>; the same balance for every asset; and the
  last 20 trades of the history. The ledger imported into plays no part.
\<close>

theorem export_import_keeps_seven_fields:
  assumes "distinct (map fst (positions st))"
    and "list_all (\<lambda>(k, p). p_id p = k) (positions st)"
    and "distinct (map fst (balance st))"
    and "list_all (\<lambda>(k, v). k \<noteq> None) (balance st)"
  shows "positions (importPortfolio (exportPortfolio now st) st') =
           map (\<lambda>(k, p). (k, p\<lparr> p_value := None, p_realizedPnl := None, p_stopLoss := None,
                                  p_takeProfit := None, p_timestamp := None \<rparr>))
               (positions st)
       \<and> map_of (balance (importPortfolio (exportPortfolio now st) st')) = map_of (balance st)
       \<and> performanceHistory (importPortfolio (exportPortfolio now st) st') =
           drop (length (performanceHistory st) - 20) (performanceHistory st)"
  using import_positions_back [OF assms(1,2)] import_balance_back [OF assms(3,4)]
  by (simp add: importPortfolio_def exportPortfolio_def exported_fields_kept)

theorem export_import_keeps_seven_fields_witness:
  "distinct (map fst (positions shortLedger))
   \<and> list_all (\<lambda>(k, p). p_id p = k) (positions shortLedger)
   \<and> distinct (map fst (balance shortLedger))
   \<and> list_all (\<lambda>(k, v). k \<noteq> None) (balance shortLedger)
   \<and> positions (importPortfolio (exportPortfolio 7 shortLedger) initialPortfolio) =
       [(''o1'', shortPosition\<lparr> p_stopLoss := None, p_takeProfit := None,
                                 p_timestamp := None \<rparr>)]
   \<and> map_of (balance (importPortfolio (exportPortfolio 7 shortLedger) initialPortfolio))
       = map_of (balance shortLedger)
   \<and> performanceHistory (importPortfolio (exportPortfolio 7 shortLedger) initialPortfolio)
       = []"
proof -
  have h1: "distinct (map fst (positions shortLedger))"
    and h2: "list_all (\<lambda>(k, p). p_id p = k) (positions shortLedger)"
    and h3: "distinct (map fst (balance shortLedger))"
    and h4: "list_all (\<lambda>(k, v). k \<noteq> None) (balance shortLedger)"
    by (simp_all add: shortLedger_def shortPosition_def)
  from export_import_keeps_seven_fields [OF h1 h2 h3 h4, of 7 initialPortfolio] h1 h2 h3 h4
  show ?thesis by (simp add: shortLedger_def shortPosition_def)
qed

section \<open>Conservation of realized profit and loss\<close>








































section \<open>Errors leave the ledger untouched\<close>

text \<open>
  Claim C10. \<open>closePosition\<close> and \<open>updatePosition\<close>, called with an id that is not a key of
  the open-position map, throw "Position ... not found" before any mutation: the state
  returned with the exception is the state they were called in, whatever the database,
  the clock, the exit price and the updates are.
\<close>

theorem unknown_id_throws_without_mutation:
  assumes "map_of (positions st) positionId = None"
  shows "closePosition db now positionId exitPrice st = (Some (PositionNotFound positionId), st)
       \<and> updatePosition db positionId updates st = (Some (PositionNotFound positionId), st)"
  using assms by (simp add: closePosition_def updatePosition_def)

theorem unknown_id_throws_without_mutation_witness:
  "map_of (positions initialPortfolio) ''order-7'' = None
   \<and> closePosition True 0 ''order-7'' (Some 101) initialPortfolio
       = (Some (PositionNotFound ''order-7''), initialPortfolio)
   \<and> updatePosition True ''order-7'' noUpdates initialPortfolio
       = (Some (PositionNotFound ''order-7''), initialPortfolio)"
proof -
  have h: "map_of (positions initialPortfolio) ''order-7'' = None"
    by (simp add: initialPortfolio_def)
  from unknown_id_throws_without_mutation [OF h, of True 0 "Some 101" noUpdates] h
  show ?thesis by simp
qed

end
